theory Spec2Isabelle
  imports Complex_Main "HOL-Library.Multiset"
begin

section \<open>The payment-request store (database.py)\<close>

text \<open>
  A row of the table \<open>payment_requests\<close>. A nullable column is an \<open>option\<close>
  (\<open>None\<close> is SQL NULL, Python's \<open>None\<close>); the NOT NULL columns and the columns
  every writer of this program fills are plain values. The source's column \<open>id\<close> is
  \<open>req_id\<close> here. A timestamp is the reading of the clock in seconds, \<open>amount\<close> (REAL)
  is an exact real number: rounding of floating point is not modelled.
\<close>

record payment_request =
  req_id :: nat
  provider_name :: string
  provider_id :: "string option"
  purchase_order_number :: "string option"
  np_type :: "string option"
  np_number :: "string option"
  amount :: real
  payment_type :: string
  payment_method :: string
  payment_term :: "string option"
  agreed_payment_date :: "string option"
  mockup_path :: "string option"
  invoice_path :: "string option"
  requested_by :: string
  status :: string
  cfo_approved :: bool
  cfo_approved_by :: "string option"
  cfo_approved_at :: "nat option"
  admin_notes :: "string option"
  payment_proof_path :: "string option"
  created_at :: nat
  updated_at :: nat
  completed_at :: "nat option"

text \<open>
  The database file, as far as payment requests go: the rows of the table in rowid order,
  and the counter SQLite keeps for an AUTOINCREMENT key (the largest rowid the table has
  ever held).
\<close>

record database =
  payment_requests :: "payment_request list"
  sqlite_sequence :: nat

text \<open>The exceptions \<open>create_payment_request\<close> can leave through.\<close>

datatype error = KeyError string | IntegrityError

text \<open>
  The dictionary \<open>data\<close> handed to \<open>create_payment_request\<close>, one field per key the
  function reads. The outer \<open>option\<close> says whether the key is in the dictionary, the
  inner one whether its value is \<open>None\<close>.
\<close>

record request_data =
  data_provider_name :: "string option option"
  data_provider_id :: "string option option"
  data_purchase_order_number :: "string option option"
  data_np_type :: "string option option"
  data_np_number :: "string option option"
  data_amount :: "real option option"
  data_payment_type :: "string option option"
  data_payment_method :: "string option option"
  data_payment_term :: "string option option"
  data_agreed_payment_date :: "string option option"
  data_mockup_path :: "string option option"
  data_invoice_path :: "string option option"
  data_requested_by :: "string option option"

text \<open>\<open>data[key]\<close>: KeyError when the key is absent.\<close>

definition dict_index :: "string \<Rightarrow> 'a option option \<Rightarrow> error + 'a option" where
  "dict_index key entry = (case entry of None \<Rightarrow> Inl (KeyError key) | Some v \<Rightarrow> Inr v)"

text \<open>\<open>data.get(key)\<close>: \<open>None\<close> when the key is absent.\<close>

definition dict_get :: "'a option option \<Rightarrow> 'a option" where
  "dict_get entry = (case entry of None \<Rightarrow> None | Some v \<Rightarrow> v)"

text \<open>A NOT NULL column refuses NULL with sqlite3.IntegrityError.\<close>

definition not_null :: "'a option \<Rightarrow> error + 'a" where
  "not_null v = (case v of None \<Rightarrow> Inl IntegrityError | Some x \<Rightarrow> Inr x)"

text \<open>
  The rowid of an inserted row under AUTOINCREMENT: one more than the largest rowid the
  table holds or has ever held.
\<close>

definition next_rowid :: "database \<Rightarrow> nat" where
  "next_rowid db = Suc (fold max (map req_id (payment_requests db)) (sqlite_sequence db))"

text \<open>
  \<open>create_payment_request(data)\<close> at clock reading \<open>now\<close>. Python evaluates the tuple
  of parameters first, in the order written, so the first absent indexed key raises
  KeyError before the database is touched; the INSERT then checks the NOT NULL columns.
  The columns the INSERT does not name take their defaults: \<open>cfo_approved\<close> is 0,
  \<open>created_at\<close> and \<open>updated_at\<close> are CURRENT_TIMESTAMP, the others NULL. The result
  is the new database and \<open>cursor.lastrowid\<close>.
\<close>

definition create_payment_request ::
  "database \<Rightarrow> nat \<Rightarrow> request_data \<Rightarrow> error + (database \<times> nat)" where
  "create_payment_request db now data =
    (case dict_index ''provider_name'' (data_provider_name data) of Inl e \<Rightarrow> Inl e
     | Inr v_provider_name \<Rightarrow>
    (case dict_index ''amount'' (data_amount data) of Inl e \<Rightarrow> Inl e
     | Inr v_amount \<Rightarrow>
    (case dict_index ''payment_type'' (data_payment_type data) of Inl e \<Rightarrow> Inl e
     | Inr v_payment_type \<Rightarrow>
    (case dict_index ''payment_method'' (data_payment_method data) of Inl e \<Rightarrow> Inl e
     | Inr v_payment_method \<Rightarrow>
    (case dict_index ''requested_by'' (data_requested_by data) of Inl e \<Rightarrow> Inl e
     | Inr v_requested_by \<Rightarrow>
    (case not_null v_provider_name of Inl e \<Rightarrow> Inl e | Inr c_provider_name \<Rightarrow>
    (case not_null v_amount of Inl e \<Rightarrow> Inl e | Inr c_amount \<Rightarrow>
    (case not_null v_payment_type of Inl e \<Rightarrow> Inl e | Inr c_payment_type \<Rightarrow>
    (case not_null v_payment_method of Inl e \<Rightarrow> Inl e | Inr c_payment_method \<Rightarrow>
    (case not_null v_requested_by of Inl e \<Rightarrow> Inl e | Inr c_requested_by \<Rightarrow>
      (let request_id = next_rowid db;
           row = \<lparr> req_id = request_id,
                   provider_name = c_provider_name,
                   provider_id = dict_get (data_provider_id data),
                   purchase_order_number = dict_get (data_purchase_order_number data),
                   np_type = dict_get (data_np_type data),
                   np_number = dict_get (data_np_number data),
                   amount = c_amount,
                   payment_type = c_payment_type,
                   payment_method = c_payment_method,
                   payment_term = dict_get (data_payment_term data),
                   agreed_payment_date = dict_get (data_agreed_payment_date data),
                   mockup_path = dict_get (data_mockup_path data),
                   invoice_path = dict_get (data_invoice_path data),
                   requested_by = c_requested_by,
                   status = ''pendiente'',
                   cfo_approved = False,
                   cfo_approved_by = None,
                   cfo_approved_at = None,
                   admin_notes = None,
                   payment_proof_path = None,
                   created_at = now,
                   updated_at = now,
                   completed_at = None \<rparr>
       in Inr (\<lparr> payment_requests = payment_requests db @ [row],
                    sqlite_sequence = request_id \<rparr>, request_id))))))))))))"

text \<open>
  \<open>ORDER BY created_at DESC\<close>. SQLite leaves the order of rows with equal keys open; the
  model keeps them in table order (a stable sort).
\<close>

definition order_by_created_at_desc :: "payment_request list \<Rightarrow> payment_request list" where
  "order_by_created_at_desc rows = sort_key (\<lambda>r. - int (created_at r)) rows"

text \<open>
  \<open>get_payment_requests(status)\<close>. The test \<open>if status:\<close> is Python's truth value of
  an optional string: false for \<open>None\<close> and for the empty string.
\<close>

definition truthy :: "string option \<Rightarrow> bool" where
  "truthy s = (case s of None \<Rightarrow> False | Some t \<Rightarrow> t \<noteq> [])"

definition get_payment_requests :: "database \<Rightarrow> string option \<Rightarrow> payment_request list" where
  "get_payment_requests db status_filter =
    (if truthy status_filter
     then order_by_created_at_desc
            (filter (\<lambda>r. status r = the status_filter) (payment_requests db))
     else order_by_created_at_desc (payment_requests db))"

text \<open>\<open>get_payment_request(request_id)\<close>: the row with that id, or \<open>None\<close>.\<close>

definition get_payment_request :: "database \<Rightarrow> nat \<Rightarrow> payment_request option" where
  "get_payment_request db request_id =
    find (\<lambda>r. req_id r = request_id) (payment_requests db)"

text \<open>
  \<open>UPDATE payment_requests SET ... WHERE id = ?\<close>: the assignment \<open>upd\<close> applied to
  every row with that id, and \<open>cursor.rowcount\<close>.
\<close>

definition sql_update ::
  "(payment_request \<Rightarrow> payment_request) \<Rightarrow> nat \<Rightarrow> database \<Rightarrow> database" where
  "sql_update upd request_id db =
    db\<lparr> payment_requests :=
          map (\<lambda>r. if req_id r = request_id then upd r else r) (payment_requests db) \<rparr>"

definition rowcount :: "nat \<Rightarrow> database \<Rightarrow> nat" where
  "rowcount request_id db = length (filter (\<lambda>r. req_id r = request_id) (payment_requests db))"

text \<open>
  \<open>update_payment_status(request_id, status, admin_notes, payment_proof_path)\<close>: the SET
  list is built field by field; an optional argument left at \<open>None\<close> adds no assignment.
\<close>

definition update_payment_status ::
  "database \<Rightarrow> nat \<Rightarrow> nat \<Rightarrow> string \<Rightarrow> string option \<Rightarrow> string option \<Rightarrow> database \<times> bool" where
  "update_payment_status db now request_id new_status notes proof_path =
    (let set_base = (\<lambda>r. r\<lparr> status := new_status, updated_at := now \<rparr>);
         set_notes = (case notes of None \<Rightarrow> (\<lambda>r. r)
                      | Some n \<Rightarrow> (\<lambda>r. r\<lparr> admin_notes := Some n \<rparr>));
         set_proof = (case proof_path of None \<Rightarrow> (\<lambda>r. r)
                      | Some p \<Rightarrow> (\<lambda>r. r\<lparr> payment_proof_path := Some p \<rparr>));
         set_completed = (if new_status = ''completado''
                          then (\<lambda>r. r\<lparr> completed_at := Some now \<rparr>) else (\<lambda>r. r))
     in (sql_update (set_completed \<circ> set_proof \<circ> set_notes \<circ> set_base) request_id db,
         rowcount request_id db > 0))"

text \<open>\<open>approve_cfo(request_id, approved_by)\<close>.\<close>

definition approve_cfo :: "database \<Rightarrow> nat \<Rightarrow> nat \<Rightarrow> string \<Rightarrow> database \<times> bool" where
  "approve_cfo db now request_id approved_by =
    (sql_update (\<lambda>r. r\<lparr> cfo_approved := True,
                        cfo_approved_by := Some approved_by,
                        cfo_approved_at := Some now,
                        status := ''aprobado_cfo'',
                        updated_at := now \<rparr>) request_id db,
     rowcount request_id db > 0)"

text \<open>SQL's \<open>||\<close> (NULL if either side is NULL) and two-argument COALESCE.\<close>

definition sql_concat :: "string option \<Rightarrow> string option \<Rightarrow> string option" where
  "sql_concat a b = (case a of None \<Rightarrow> None
                     | Some x \<Rightarrow> (case b of None \<Rightarrow> None | Some y \<Rightarrow> Some (x @ y)))"

definition coalesce :: "string option \<Rightarrow> string option \<Rightarrow> string option" where
  "coalesce a b = (case a of None \<Rightarrow> b | Some x \<Rightarrow> Some x)"

text \<open>
  The parameter \<open>f"Rechazado por CFO: {reason or 'Sin motivo especificado'}"\<close>: Python's
  \<open>or\<close> takes the default for \<open>None\<close> and for the empty string.
\<close>

definition rejection_text :: "string option \<Rightarrow> string" where
  "rejection_text reason =
    ''Rechazado por CFO: '' @ (if truthy reason then the reason else ''Sin motivo especificado'')"

text \<open>\<open>reject_cfo(request_id, approved_by, reason)\<close>.\<close>

definition reject_cfo ::
  "database \<Rightarrow> nat \<Rightarrow> nat \<Rightarrow> string \<Rightarrow> string option \<Rightarrow> database \<times> bool" where
  "reject_cfo db now request_id approved_by reason =
    (sql_update (\<lambda>r. r\<lparr> cfo_approved := False,
                        cfo_approved_by := Some approved_by,
                        cfo_approved_at := Some now,
                        status := ''rechazado'',
                        admin_notes :=
                          sql_concat (coalesce (sql_concat (admin_notes r) (Some '' | '')) (Some ''''))
                                     (Some (rejection_text reason)),
                        updated_at := now \<rparr>) request_id db,
     rowcount request_id db > 0)"

section \<open>The admin view's actions on one request (app.py)\<close>

text \<open>
  The buttons of the admin view for one listed request. A run of the page reads the
  requests, draws for each the buttons its status allows, and performs the action of the
  button that was clicked. The rejection reason is the content of a text input (a string,
  empty when nothing was typed), the proof is the path of the saved upload or \<open>None\<close>,
  the notes are the content of the text area.
\<close>

datatype admin_click =
  Aprobar
| Rechazar string
| Marcar_En_Proceso
| Marcar_Completado "string option"
| Guardar_Notas string

text \<open>
  The handler: \<open>req\<close> is the row as the page read it, \<open>current_status = req['status']\<close>.
  A button that is not drawn for that status cannot be clicked: the database stays as it
  is. The result is the database and whether the handler's call reported success.
\<close>

definition admin_request_actions ::
  "database \<Rightarrow> nat \<Rightarrow> payment_request \<Rightarrow> admin_click \<Rightarrow> database \<times> bool" where
  "admin_request_actions db now req click =
    (let current_status = status req in
      case click of
        Guardar_Notas notes \<Rightarrow>
          update_payment_status db now (req_id req) current_status (Some notes) None
      | Aprobar \<Rightarrow>
          (if current_status = ''pendiente'' then approve_cfo db now (req_id req) ''CFO''
           else (db, False))
      | Rechazar reject_reason \<Rightarrow>
          (if current_status = ''pendiente''
           then reject_cfo db now (req_id req) ''CFO'' (Some reject_reason)
           else (db, False))
      | Marcar_En_Proceso \<Rightarrow>
          (if current_status \<noteq> ''pendiente'' \<and> current_status = ''aprobado_cfo''
           then update_payment_status db now (req_id req) ''en_proceso'' None None
           else (db, False))
      | Marcar_Completado proof_path \<Rightarrow>
          (if current_status \<noteq> ''pendiente'' \<and> current_status \<noteq> ''aprobado_cfo''
              \<and> current_status = ''en_proceso''
           then update_payment_status db now (req_id req) ''completado'' None proof_path
           else (db, False)))"

text \<open>
  The checks of the request form before it calls \<open>create_payment_request\<close>: which of
  the three error messages is shown, or \<open>None\<close> when the form goes on to create the
  request.
\<close>

datatype form_error = Falta_Proveedor | Falta_Nota_De_Pedido | Monto_Invalido

definition form_validation :: "string \<Rightarrow> string \<Rightarrow> real \<Rightarrow> form_error option" where
  "form_validation v_provider_name v_np_number v_amount =
    (if v_provider_name = [] then Some Falta_Proveedor
     else if v_np_number = [] then Some Falta_Nota_De_Pedido
     else if v_amount \<le> 0 then Some Monto_Invalido
     else None)"

section \<open>Calendar dates (datetime.date, datetime.strptime, relativedelta)\<close>

text \<open>
  A \<open>datetime.date\<close> is modelled by its proleptic Gregorian ordinal (\<open>date.toordinal()\<close>,
  day 1 is 0001-01-01): the library compares dates as it compares their ordinals, adds a
  \<open>timedelta\<close> to the ordinal and subtracts two dates as their ordinals. Year, month
  and day are recovered from the ordinal the way the library's \<open>_ord2ymd\<close> does it. The
  library's upper limit (year 9999) is not modelled.
\<close>

type_synonym date = int

definition is_leap :: "int \<Rightarrow> bool" where
  "is_leap y = (y mod 4 = 0 \<and> (y mod 100 \<noteq> 0 \<or> y mod 400 = 0))"

definition days_before_year :: "int \<Rightarrow> int" where
  "days_before_year yr = (let y = yr - 1 in y * 365 + y div 4 - y div 100 + y div 400)"

definition days_in_month_table :: "int \<Rightarrow> int" where
  "days_in_month_table m =
    (if m = 2 then 28 else if m = 4 \<or> m = 6 \<or> m = 9 \<or> m = 11 then 30 else 31)"

definition days_in_month :: "int \<Rightarrow> int \<Rightarrow> int" where
  "days_in_month y m = (if m = 2 \<and> is_leap y then 29 else days_in_month_table m)"

definition days_before_month_table :: "int \<Rightarrow> int" where
  "days_before_month_table m =
    (if m = 1 then 0 else if m = 2 then 31 else if m = 3 then 59 else if m = 4 then 90
     else if m = 5 then 120 else if m = 6 then 151 else if m = 7 then 181
     else if m = 8 then 212 else if m = 9 then 243 else if m = 10 then 273
     else if m = 11 then 304 else 334)"

definition days_before_month :: "int \<Rightarrow> int \<Rightarrow> int" where
  "days_before_month y m = days_before_month_table m + (if m > 2 \<and> is_leap y then 1 else 0)"

definition ymd2ord :: "int \<Rightarrow> int \<Rightarrow> int \<Rightarrow> date" where
  "ymd2ord y m d = days_before_year y + days_before_month y m + d"

definition ord2ymd :: "date \<Rightarrow> int \<times> int \<times> int" where
  "ord2ymd ordinal =
    (let n = ordinal - 1;
         n400 = n div 146097; n = n mod 146097;
         n100 = n div 36524; n = n mod 36524;
         n4 = n div 1461; n = n mod 1461;
         n1 = n div 365; n = n mod 365;
         yr = n400 * 400 + 1 + n100 * 100 + n4 * 4 + n1
     in if n1 = 4 \<or> n100 = 4 then (yr - 1, 12, 31)
        else
          (let leapyear = (n1 = 3 \<and> (n4 \<noteq> 24 \<or> n100 = 3));
               mo = (n + 50) div 32;
               preceding = days_before_month_table mo + (if mo > 2 \<and> leapyear then 1 else 0)
           in if preceding > n
              then (let mo' = mo - 1;
                        preceding' = preceding
                          - (days_in_month_table mo' + (if mo' = 2 \<and> leapyear then 1 else 0))
                    in (yr, mo', n - preceding' + 1))
              else (yr, mo, n - preceding + 1)))"

definition date_year :: "date \<Rightarrow> int" where
  "date_year d = fst (ord2ymd d)"

definition date_month :: "date \<Rightarrow> int" where
  "date_month d = fst (snd (ord2ymd d))"

definition date_day :: "date \<Rightarrow> int" where
  "date_day d = snd (snd (ord2ymd d))"

text \<open>\<open>date(y, m, d)\<close>: ValueError (here \<open>None\<close>) unless the day exists.\<close>

definition make_date :: "int \<Rightarrow> int \<Rightarrow> int \<Rightarrow> date option" where
  "make_date y m d =
    (if 1 \<le> y \<and> 1 \<le> m \<and> m \<le> 12 \<and> 1 \<le> d \<and> d \<le> days_in_month y m
     then Some (ymd2ord y m d) else None)"

text \<open>\<open>d.replace(day=1)\<close>.\<close>

definition replace_day_1 :: "date \<Rightarrow> date" where
  "replace_day_1 d = ymd2ord (date_year d) (date_month d) 1"

text \<open>
  \<open>d + relativedelta(months=k)\<close> for \<open>0 \<le> k \<le> 12\<close>: the month moves on, the year
  with it past December, and the day is cut down to the length of the month reached.
\<close>

definition add_months :: "date \<Rightarrow> int \<Rightarrow> date" where
  "add_months d k =
    (let mo = date_month d + k;
         yr = (if mo > 12 then date_year d + 1 else date_year d);
         mo = (if mo > 12 then mo - 12 else mo);
         dy = min (days_in_month yr mo) (date_day d)
     in ymd2ord yr mo dy)"

text \<open>
  \<open>datetime.strptime(s, '%Y-%m-%d').date()\<close>. The format's pattern is four digits, a
  hyphen, a month (\<open>1[0-2]|0[1-9]|[1-9]\<close>), a hyphen and a day
  (\<open>3[01]|[12]\d|0[1-9]|[1-9]| [1-9]\<close>), with nothing left over; the day must exist in
  that month and year. Any failure is the ValueError the callers catch: \<open>None\<close>.
  The digits are the ASCII digits.
\<close>

definition digit_val :: "char \<Rightarrow> int option" where
  "digit_val c = map_of (zip ''0123456789'' [0, 1, 2, 3, 4, 5, 6, 7, 8, 9]) c"

fun year_field :: "string \<Rightarrow> (int \<times> string) option" where
  "year_field (a # b # c # d # rest) =
    (case (digit_val a, digit_val b, digit_val c, digit_val d) of
       (Some va, Some vb, Some vc, Some vd) \<Rightarrow>
         Some (va * 1000 + vb * 100 + vc * 10 + vd, rest)
     | _ \<Rightarrow> None)"
| "year_field _ = None"

fun hyphen :: "string \<Rightarrow> string option" where
  "hyphen (c # rest) = (if c = CHR ''-'' then Some rest else None)"
| "hyphen [] = None"

definition two_digit_month :: "char \<Rightarrow> char \<Rightarrow> int option" where
  "two_digit_month a b =
    (case (digit_val a, digit_val b) of
       (Some va, Some vb) \<Rightarrow>
         (if (va = 1 \<and> vb \<le> 2) \<or> (va = 0 \<and> 1 \<le> vb) then Some (va * 10 + vb) else None)
     | _ \<Rightarrow> None)"

definition one_digit :: "char \<Rightarrow> int option" where
  "one_digit a = (case digit_val a of Some va \<Rightarrow> (if 1 \<le> va then Some va else None)
                  | None \<Rightarrow> None)"

text \<open>The month and the hyphen after it: the alternatives in the pattern's order.\<close>

fun month_field :: "string \<Rightarrow> (int \<times> string) option" where
  "month_field (a # b # c # rest) =
    (if two_digit_month a b \<noteq> None \<and> c = CHR ''-''
     then Some (the (two_digit_month a b), rest)
     else if one_digit a \<noteq> None \<and> b = CHR ''-'' then Some (the (one_digit a), c # rest)
     else None)"
| "month_field [a, b] =
    (if one_digit a \<noteq> None \<and> b = CHR ''-'' then Some (the (one_digit a), []) else None)"
| "month_field _ = None"

definition two_char_day :: "char \<Rightarrow> char \<Rightarrow> int option" where
  "two_char_day a b =
    (case (digit_val a, digit_val b) of
       (Some va, Some vb) \<Rightarrow>
         (if (va = 3 \<and> vb \<le> 1) \<or> va = 1 \<or> va = 2 \<or> (va = 0 \<and> 1 \<le> vb)
          then Some (va * 10 + vb) else None)
     | _ \<Rightarrow> (if a = CHR '' '' then one_digit b else None))"

text \<open>The day, which must end the string.\<close>

fun day_field :: "string \<Rightarrow> int option" where
  "day_field [a, b] = two_char_day a b"
| "day_field [a] = one_digit a"
| "day_field _ = None"

definition strptime_date :: "string \<Rightarrow> date option" where
  "strptime_date s =
    (case year_field s of None \<Rightarrow> None
     | Some (y, r1) \<Rightarrow>
    (case hyphen r1 of None \<Rightarrow> None
     | Some r2 \<Rightarrow>
    (case month_field r2 of None \<Rightarrow> None
     | Some (m, r3) \<Rightarrow>
    (case day_field r3 of None \<Rightarrow> None
     | Some d \<Rightarrow> make_date y m d))))"

text \<open>
  The stored \<open>agreed_payment_date\<close> of a row, parsed; \<open>strptime\<close> of \<open>None\<close> raises too.
\<close>

definition parse_agreed :: "payment_request \<Rightarrow> date option" where
  "parse_agreed p = (case agreed_payment_date p of None \<Rightarrow> None | Some s \<Rightarrow> strptime_date s)"

section \<open>The calendar view (app.py)\<close>

text \<open>A request together with its parsed date: \<open>{**p, 'payment_date': payment_date}\<close>.\<close>

type_synonym dated_payment = "payment_request \<times> date"

definition active_status :: "string \<Rightarrow> bool" where
  "active_status s = (s = ''pendiente'' \<or> s = ''en_proceso'')"

definition scheduled_payments :: "payment_request list \<Rightarrow> payment_request list" where
  "scheduled_payments all_requests =
    filter (\<lambda>r. truthy (agreed_payment_date r) \<and> active_status (status r)) all_requests"

text \<open>
  The loop that keeps the payments of the selected month; a date that does not parse
  raises inside \<open>try\<close> and the loop goes on with the next request.
\<close>

fun month_payments :: "int \<Rightarrow> int \<Rightarrow> payment_request list \<Rightarrow> dated_payment list" where
  "month_payments selected_month selected_year [] = []"
| "month_payments selected_month selected_year (p # ps) =
    (case parse_agreed p of
       None \<Rightarrow> month_payments selected_month selected_year ps
     | Some payment_date \<Rightarrow>
         (if date_month payment_date = selected_month \<and> date_year payment_date = selected_year
          then (p, payment_date) # month_payments selected_month selected_year ps
          else month_payments selected_month selected_year ps))"

text \<open>The dictionary \<open>payments_by_date\<close>, filled by the grouping loop.\<close>

fun group_by_date ::
  "dated_payment list \<Rightarrow> (date \<rightharpoonup> dated_payment list) \<Rightarrow> (date \<rightharpoonup> dated_payment list)" where
  "group_by_date [] payments_by_date = payments_by_date"
| "group_by_date (p # ps) payments_by_date =
    (let d = snd p;
         with_key = (if payments_by_date d = None then payments_by_date(d \<mapsto> [])
                     else payments_by_date)
     in group_by_date ps (with_key(d \<mapsto> the (with_key d) @ [p])))"

definition payments_by_date :: "dated_payment list \<Rightarrow> (date \<rightharpoonup> dated_payment list)" where
  "payments_by_date mp = group_by_date mp Map.empty"

definition total_amount :: "dated_payment list \<Rightarrow> real" where
  "total_amount ps = sum_list (map (\<lambda>p. amount (fst p)) ps)"

text \<open>
  What a cell of the grid shows for \<open>current_date\<close>: the number of payments of that day
  and their total, or nothing when the day has none.
\<close>

definition day_cell :: "(date \<rightharpoonup> dated_payment list) \<Rightarrow> date \<Rightarrow> (nat \<times> real) option" where
  "day_cell by_date current_date =
    (let day_payments = (case by_date current_date of None \<Rightarrow> [] | Some ps \<Rightarrow> ps)
     in if day_payments \<noteq> [] then Some (length day_payments, total_amount day_payments)
        else None)"

text \<open>
  The calendar for a month and year over the requests read from the database: the
  payments of the month, the cells by date and the total of the month.
\<close>

definition calendar_month_payments :: "database \<Rightarrow> int \<Rightarrow> int \<Rightarrow> dated_payment list" where
  "calendar_month_payments db selected_month selected_year =
    month_payments selected_month selected_year
      (scheduled_payments (get_payment_requests db None))"

definition calendar_day :: "database \<Rightarrow> int \<Rightarrow> int \<Rightarrow> date \<Rightarrow> (nat \<times> real) option" where
  "calendar_day db selected_month selected_year current_date =
    day_cell (payments_by_date (calendar_month_payments db selected_month selected_year))
      current_date"

definition total_month :: "database \<Rightarrow> int \<Rightarrow> int \<Rightarrow> real" where
  "total_month db selected_month selected_year =
    total_amount (calendar_month_payments db selected_month selected_year)"

subsection \<open>The payments of the next 7 days\<close>





section \<open>The cashflow view (app.py)\<close>

definition active_payments :: "payment_request list \<Rightarrow> payment_request list" where
  "active_payments all_requests = filter (\<lambda>r. active_status (status r)) all_requests"

text \<open>
  The loop that separates the payments with a date from those without: the lists
  \<open>with_date\<close> and \<open>without_date\<close>, each in the order of the requests.
\<close>

fun separate :: "payment_request list \<Rightarrow> dated_payment list \<times> payment_request list" where
  "separate [] = ([], [])"
| "separate (p # ps) =
    (let (with_date, without_date) = separate ps in
      if truthy (agreed_payment_date p)
      then (case parse_agreed p of
              Some payment_date \<Rightarrow> ((p, payment_date) # with_date, without_date)
            | None \<Rightarrow> (with_date, p # without_date))
      else (with_date, p # without_date))"

definition with_date :: "database \<Rightarrow> dated_payment list" where
  "with_date db = fst (separate (active_payments (get_payment_requests db None)))"

definition without_date :: "database \<Rightarrow> payment_request list" where
  "without_date db = snd (separate (active_payments (get_payment_requests db None)))"

definition total_pending :: "database \<Rightarrow> real" where
  "total_pending db = sum_list (map amount (active_payments (get_payment_requests db None)))"

definition total_scheduled :: "database \<Rightarrow> real" where
  "total_scheduled db = total_amount (with_date db)"

definition total_unscheduled :: "database \<Rightarrow> real" where
  "total_unscheduled db = sum_list (map amount (without_date db))"

text \<open>
  A row of the projection: the first and the last day of the bucket (the label is
  printed from them), the total and the number of payments.
\<close>

record bucket =
  bucket_start :: date
  bucket_end :: date
  monto :: real
  pagos :: nat

definition payments_between :: "dated_payment list \<Rightarrow> date \<Rightarrow> date \<Rightarrow> dated_payment list" where
  "payments_between ps first_day last_day =
    filter (\<lambda>p. first_day \<le> snd p \<and> snd p \<le> last_day) ps"

definition week_bucket :: "dated_payment list \<Rightarrow> date \<Rightarrow> nat \<Rightarrow> bucket" where
  "week_bucket wd today i =
    (let week_start = today + 7 * int i;
         week_end = week_start + 6;
         week_payments = payments_between wd week_start week_end
     in \<lparr> bucket_start = week_start, bucket_end = week_end,
          monto = total_amount week_payments, pagos = length week_payments \<rparr>)"

definition weeks_data :: "database \<Rightarrow> date \<Rightarrow> bucket list" where
  "weeks_data db today = map (week_bucket (with_date db) today) [0..<8]"

definition month_bucket :: "dated_payment list \<Rightarrow> date \<Rightarrow> nat \<Rightarrow> bucket" where
  "month_bucket wd today i =
    (let month_date = add_months today (int i);
         month_start = replace_day_1 month_date;
         month_end = add_months month_start 1 - 1;
         month_payments = payments_between wd month_start month_end
     in \<lparr> bucket_start = month_start, bucket_end = month_end,
          monto = total_amount month_payments, pagos = length month_payments \<rparr>)"

definition months_data :: "database \<Rightarrow> date \<Rightarrow> bucket list" where
  "months_data db today = map (month_bucket (with_date db) today) [0..<6]"

subsection \<open>The cumulative cashflow\<close>





section \<open>Sample data\<close>

text \<open>The table as \<open>init_database\<close> creates it.\<close>

definition empty_database :: database where
  "empty_database = \<lparr> payment_requests = [], sqlite_sequence = 0 \<rparr>"

text \<open>
  The first scenario of the specification: a request of 1500.00 with note number 0042,
  asked for by Ana, created at clock reading 100 in the empty table.
\<close>

definition scenario_data :: request_data where
  "scenario_data =
    \<lparr> data_provider_name = Some (Some ''Proveedor XYZ''),
      data_provider_id = Some None,
      data_purchase_order_number = Some None,
      data_np_type = Some (Some ''NPA''),
      data_np_number = Some (Some ''0042''),
      data_amount = Some (Some 1500),
      data_payment_type = Some (Some ''total''),
      data_payment_method = Some (Some ''transferencia''),
      data_payment_term = Some None,
      data_agreed_payment_date = Some None,
      data_mockup_path = Some None,
      data_invoice_path = Some None,
      data_requested_by = Some (Some ''Ana'') \<rparr>"

definition scenario_request :: payment_request where
  "scenario_request =
     \<lparr> req_id = 1, provider_name = ''Proveedor XYZ'', provider_id = None,
       purchase_order_number = None, np_type = Some ''NPA'', np_number = Some ''0042'',
       amount = 1500, payment_type = ''total'', payment_method = ''transferencia'',
       payment_term = None, agreed_payment_date = None, mockup_path = None,
       invoice_path = None, requested_by = ''Ana'', status = ''pendiente'',
       cfo_approved = False, cfo_approved_by = None, cfo_approved_at = None,
       admin_notes = None, payment_proof_path = None, created_at = 100,
       updated_at = 100, completed_at = None \<rparr>"

definition scenario_db :: database where
  "scenario_db = \<lparr> payment_requests = [scenario_request], sqlite_sequence = 1 \<rparr>"

text \<open>The scenario's request once it has been approved, processed and completed.\<close>

definition completed_request :: payment_request where
  "completed_request =
     scenario_request\<lparr> status := ''completado'', cfo_approved := True,
       cfo_approved_by := Some ''CFO'', cfo_approved_at := Some 200, updated_at := 400,
       completed_at := Some 400 \<rparr>"

definition completed_db :: database where
  "completed_db = \<lparr> payment_requests = [completed_request], sqlite_sequence = 1 \<rparr>"

text \<open>
  A table of six requests for the views, looked at on 2024-03-15: two active payments
  on 2024-03-18, an active one on 2024-03-10, one whose date names no day of the
  calendar, a completed one and one without a date.
\<close>

definition sample_request ::
  "nat \<Rightarrow> string \<Rightarrow> string option \<Rightarrow> real \<Rightarrow> nat \<Rightarrow> payment_request" where
  "sample_request i st d a c =
     scenario_request\<lparr> req_id := i, status := st, agreed_payment_date := d, amount := a,
       created_at := c, updated_at := c \<rparr>"

definition sample_db :: database where
  "sample_db =
     \<lparr> payment_requests =
         [sample_request 1 ''pendiente'' (Some ''2024-03-18'') 100 100,
          sample_request 2 ''en_proceso'' (Some ''2024-03-18'') 200 110,
          sample_request 3 ''pendiente'' (Some ''2024-03-10'') 50 120,
          sample_request 4 ''pendiente'' (Some ''2024-02-30'') 70 130,
          sample_request 5 ''completado'' (Some ''2024-03-18'') 1000 140,
          sample_request 6 ''pendiente'' None 30 150],
       sqlite_sequence = 6 \<rparr>"

definition sample_today :: date where
  "sample_today = ymd2ord 2024 3 15"

section \<open>Properties of the store\<close>

subsection \<open>The sample data, evaluated\<close>

lemmas date_defs = strptime_date_def make_date_def ymd2ord_def days_before_year_def
  days_before_month_def days_before_month_table_def days_in_month_def days_in_month_table_def
  is_leap_def digit_val_def two_digit_month_def two_char_day_def one_digit_def

lemma sample_today_eq: "sample_today = 738960"
  by (simp add: sample_today_def date_defs)

lemma sample_parse:
  "strptime_date ''2024-03-18'' = Some 738963"
  "strptime_date ''2024-03-10'' = Some 738955"
  "strptime_date ''2024-02-30'' = None"
  by (simp_all add: date_defs)

lemma sample_ymd:
  "ord2ymd 738963 = (2024, 3, 18)"
  "ord2ymd 738955 = (2024, 3, 10)"
  "ord2ymd 738960 = (2024, 3, 15)"
  by (simp_all add: ord2ymd_def Let_def days_before_month_table_def days_in_month_table_def)

lemma sample_listing:
  "get_payment_requests sample_db None =
     [sample_request 6 ''pendiente'' None 30 150,
      sample_request 5 ''completado'' (Some ''2024-03-18'') 1000 140,
      sample_request 4 ''pendiente'' (Some ''2024-02-30'') 70 130,
      sample_request 3 ''pendiente'' (Some ''2024-03-10'') 50 120,
      sample_request 2 ''en_proceso'' (Some ''2024-03-18'') 200 110,
      sample_request 1 ''pendiente'' (Some ''2024-03-18'') 100 100]"
  by (simp add: get_payment_requests_def truthy_def order_by_created_at_desc_def sample_db_def
      sample_request_def)

lemma sample_fields:
  "status (sample_request i st d a c) = st"
  "agreed_payment_date (sample_request i st d a c) = d"
  "amount (sample_request i st d a c) = a"
  "req_id (sample_request i st d a c) = i"
  "created_at (sample_request i st d a c) = c"
  "provider_name (sample_request i st d a c) = ''Proveedor XYZ''"
  by (simp_all add: sample_request_def scenario_request_def)

lemma sample_filtered:
  "get_payment_requests sample_db (Some ''pendiente'') =
     [sample_request 6 ''pendiente'' None 30 150,
      sample_request 4 ''pendiente'' (Some ''2024-02-30'') 70 130,
      sample_request 3 ''pendiente'' (Some ''2024-03-10'') 50 120,
      sample_request 1 ''pendiente'' (Some ''2024-03-18'') 100 100]"
  by (simp add: get_payment_requests_def truthy_def order_by_created_at_desc_def sample_db_def
      sample_fields)

subsection \<open>Updates and lookups by id\<close>

lemma find_map_update:
  assumes "\<And>r. req_id (upd r) = req_id r"
  shows "find (\<lambda>r. req_id r = i) (map (\<lambda>r. if req_id r = i then upd r else r) rows)
         = map_option upd (find (\<lambda>r. req_id r = i) rows)"
  by (induction rows) (simp_all add: assms)

lemma find_map_other:
  assumes "\<And>r. req_id (upd r) = req_id r" and "j \<noteq> i"
  shows "find (\<lambda>r. req_id r = j) (map (\<lambda>r. if req_id r = i then upd r else r) rows)
         = find (\<lambda>r. req_id r = j) rows"
  using assms by (induction rows) simp_all

lemma get_sql_update:
  assumes "\<And>r. req_id (upd r) = req_id r"
  shows "get_payment_request (sql_update upd i db) i = map_option upd (get_payment_request db i)"
  by (simp add: get_payment_request_def sql_update_def find_map_update assms)

lemma get_sql_update_other:
  assumes "\<And>r. req_id (upd r) = req_id r" and "j \<noteq> i"
  shows "get_payment_request (sql_update upd i db) j = get_payment_request db j"
  using assms by (simp add: get_payment_request_def sql_update_def find_map_other)

lemma rowcount_pos:
  "(rowcount i db > 0) = (get_payment_request db i \<noteq> None)"
  by (auto simp: rowcount_def get_payment_request_def find_None_iff filter_empty_conv)

lemma sql_update_absent:
  assumes "get_payment_request db i = None"
  shows "sql_update upd i db = db"
proof -
  have "\<forall>r \<in> set (payment_requests db). req_id r \<noteq> i"
    using assms by (auto simp: get_payment_request_def find_None_iff)
  then have "map (\<lambda>r. if req_id r = i then upd r else r) (payment_requests db) = payment_requests db"
    by (induction "payment_requests db") (auto simp: map_idI)
  then show ?thesis by (simp add: sql_update_def)
qed

lemma scenario_created:
  "create_payment_request empty_database 100 scenario_data = Inr (scenario_db, 1)"
  by (simp add: create_payment_request_def empty_database_def scenario_data_def
      scenario_db_def scenario_request_def dict_index_def dict_get_def not_null_def
      next_rowid_def)

lemma scenario_get: "get_payment_request scenario_db 1 = Some scenario_request"
  by (simp add: get_payment_request_def scenario_db_def scenario_request_def)


subsection \<open>update_payment_status\<close>

lemma update_payment_status_row:
  "get_payment_request db rid = Some r \<Longrightarrow>
     snd (update_payment_status db now rid st nts pp) \<and>
     get_payment_request (fst (update_payment_status db now rid st nts pp)) rid =
       Some (r\<lparr> status := st,
                updated_at := now,
                admin_notes := (case nts of None \<Rightarrow> admin_notes r | Some n \<Rightarrow> Some n),
                payment_proof_path :=
                  (case pp of None \<Rightarrow> payment_proof_path r | Some p \<Rightarrow> Some p),
                completed_at := (if st = ''completado'' then Some now else completed_at r) \<rparr>)"
  by (cases nts; cases pp)
     (simp_all add: update_payment_status_def get_sql_update rowcount_pos)

lemma update_payment_status_absent:
  "get_payment_request db rid = None \<Longrightarrow>
     update_payment_status db now rid st nts pp = (db, False)"
  by (simp add: update_payment_status_def rowcount_pos sql_update_absent)

lemma update_payment_status_other:
  "j \<noteq> rid \<Longrightarrow>
     get_payment_request (fst (update_payment_status db now rid st nts pp)) j =
       get_payment_request db j"
  by (cases nts; cases pp)
     (simp_all add: update_payment_status_def get_sql_update_other)

text \<open>
  Claim C4. \<open>update_payment_status\<close> is a partial update. On a request that exists it
  reports success and leaves the row with the new status, \<open>updated_at\<close> at the clock
  reading, the notes and the proof path overwritten only when they were supplied,
  \<open>completed_at\<close> set to the clock reading when the new status is \<open>completado\<close> and
  left as stored otherwise, and every other field as it was. When no request has the id
  the result is \<open>False\<close> and the database is unchanged; no exception is raised (the
  function is total). A request with another id is never touched.
\<close>

theorem update_payment_status_partial:
  "(get_payment_request db rid = Some r \<longrightarrow>
      snd (update_payment_status db now rid st nts pp) = True \<and>
      get_payment_request (fst (update_payment_status db now rid st nts pp)) rid =
        Some (r\<lparr> status := st,
                 updated_at := now,
                 admin_notes := (case nts of None \<Rightarrow> admin_notes r | Some n \<Rightarrow> Some n),
                 payment_proof_path :=
                   (case pp of None \<Rightarrow> payment_proof_path r | Some p \<Rightarrow> Some p),
                 completed_at := (if st = ''completado'' then Some now else completed_at r) \<rparr>)) \<and>
   (get_payment_request db rid = None \<longrightarrow>
      update_payment_status db now rid st nts pp = (db, False)) \<and>
   (j \<noteq> rid \<longrightarrow>
      get_payment_request (fst (update_payment_status db now rid st nts pp)) j =
        get_payment_request db j)"
  using update_payment_status_row [of db rid r now st nts pp]
    update_payment_status_absent [of db rid now st nts pp]
    update_payment_status_other [of j rid db now st nts pp]
  by simp

theorem update_payment_status_partial_witness:
  "get_payment_request scenario_db 1 = Some scenario_request \<and>
   update_payment_status scenario_db 250 1 ''completado'' None (Some ''uploads/proof_1.pdf'') =
     (\<lparr> payment_requests =
          [scenario_request\<lparr> status := ''completado'', updated_at := 250,
             payment_proof_path := Some ''uploads/proof_1.pdf'', completed_at := Some 250 \<rparr>],
        sqlite_sequence = 1 \<rparr>, True) \<and>
   get_payment_request scenario_db 7 = None \<and>
   update_payment_status scenario_db 250 7 ''completado'' None None = (scenario_db, False)"
  using update_payment_status_partial [of scenario_db 1 scenario_request 250 "''completado''" None
      "Some ''uploads/proof_1.pdf''" 7]
    update_payment_status_partial [of scenario_db 7 scenario_request 250 "''completado''" None None 1]
  by (simp add: scenario_get get_payment_request_def scenario_db_def update_payment_status_def
      sql_update_def rowcount_def scenario_request_def)

subsection \<open>create_payment_request\<close>






lemma find_append_other:
  "\<not> P x \<Longrightarrow> find P (xs @ [x]) = find P xs"
  by (induction xs) auto




subsection \<open>get_payment_requests\<close>

lemma sorted_desc_order:
  "sorted_wrt (\<lambda>a b. created_at b \<le> created_at a) (order_by_created_at_desc rows)"
proof -
  have "sorted (map (\<lambda>r. - int (created_at r)) (order_by_created_at_desc rows))"
    by (simp add: order_by_created_at_desc_def)
  then show ?thesis by (simp add: sorted_map)
qed

text \<open>
  Claim C10. The empty string as status filter gives the same result as no filter: every
  stored request, newest first. A filter that is not empty gives exactly the requests with
  that status, newest first.
\<close>

theorem get_payment_requests_empty_filter:
  "get_payment_requests db (Some []) = get_payment_requests db None \<and>
   mset (get_payment_requests db None) = mset (payment_requests db) \<and>
   sorted_wrt (\<lambda>a b. created_at b \<le> created_at a) (get_payment_requests db None) \<and>
   (s \<noteq> [] \<longrightarrow>
      mset (get_payment_requests db (Some s))
        = filter_mset (\<lambda>r. status r = s) (mset (payment_requests db)) \<and>
      sorted_wrt (\<lambda>a b. created_at b \<le> created_at a) (get_payment_requests db (Some s)))"
  by (simp add: get_payment_requests_def truthy_def sorted_desc_order)
     (simp add: order_by_created_at_desc_def)

theorem get_payment_requests_empty_filter_witness:
  "get_payment_requests sample_db (Some []) =
     [sample_request 6 ''pendiente'' None 30 150,
      sample_request 5 ''completado'' (Some ''2024-03-18'') 1000 140,
      sample_request 4 ''pendiente'' (Some ''2024-02-30'') 70 130,
      sample_request 3 ''pendiente'' (Some ''2024-03-10'') 50 120,
      sample_request 2 ''en_proceso'' (Some ''2024-03-18'') 200 110,
      sample_request 1 ''pendiente'' (Some ''2024-03-18'') 100 100] \<and>
   ''pendiente'' \<noteq> [] \<and>
   mset (get_payment_requests sample_db (Some ''pendiente''))
     = filter_mset (\<lambda>r. status r = ''pendiente'') (mset (payment_requests sample_db))"
  using get_payment_requests_empty_filter [of sample_db "''pendiente''"]
  by (simp add: sample_listing)


subsection \<open>approve_cfo and reject_cfo\<close>

lemma approve_cfo_row:
  "get_payment_request db rid = Some r \<Longrightarrow>
     snd (approve_cfo db now rid who) \<and>
     get_payment_request (fst (approve_cfo db now rid who)) rid =
       Some (r\<lparr> cfo_approved := True, cfo_approved_by := Some who,
                cfo_approved_at := Some now, status := ''aprobado_cfo'', updated_at := now \<rparr>)"
  by (simp add: approve_cfo_def get_sql_update rowcount_pos)

lemma reject_cfo_row:
  "get_payment_request db rid = Some r \<Longrightarrow>
     snd (reject_cfo db now rid who reason) \<and>
     get_payment_request (fst (reject_cfo db now rid who reason)) rid =
       Some (r\<lparr> cfo_approved := False, cfo_approved_by := Some who,
                cfo_approved_at := Some now, status := ''rechazado'',
                admin_notes :=
                  Some ((case admin_notes r of None \<Rightarrow> [] | Some n \<Rightarrow> n @ '' | '')
                        @ rejection_text reason),
                updated_at := now \<rparr>)"
  by (cases "admin_notes r")
     (simp_all add: reject_cfo_def get_sql_update rowcount_pos sql_concat_def coalesce_def)

lemma cfo_absent:
  "get_payment_request db rid = None \<Longrightarrow>
     approve_cfo db now rid who = (db, False) \<and> reject_cfo db now rid who reason = (db, False)"
  by (simp add: approve_cfo_def reject_cfo_def rowcount_pos sql_update_absent)

text \<open>
  Claim C1, as the code has it. \<open>approve_cfo\<close> and \<open>reject_cfo\<close> do not look at the
  stored status: on a request that exists each of them succeeds and writes its status,
  whatever the status was, and each fails, with \<open>False\<close> and an unchanged database,
  only when no request has the id. The restriction to \<open>pendiente\<close> is the admin view's:
  for a request it read with any other status it draws neither button, and nothing is
  written.
\<close>

theorem cfo_actions_unguarded:
  "(get_payment_request db rid = Some r \<longrightarrow>
      snd (approve_cfo db now rid who) \<and>
      map_option status (get_payment_request (fst (approve_cfo db now rid who)) rid)
        = Some ''aprobado_cfo'' \<and>
      snd (reject_cfo db now rid who reason) \<and>
      map_option status (get_payment_request (fst (reject_cfo db now rid who reason)) rid)
        = Some ''rechazado'') \<and>
   (get_payment_request db rid = None \<longrightarrow>
      approve_cfo db now rid who = (db, False) \<and>
      reject_cfo db now rid who reason = (db, False)) \<and>
   (status req \<noteq> ''pendiente'' \<longrightarrow>
      admin_request_actions db now req Aprobar = (db, False) \<and>
      admin_request_actions db now req (Rechazar reject_reason) = (db, False))"
  using approve_cfo_row [of db rid r now who] reject_cfo_row [of db rid r now who reason]
    cfo_absent [of db rid now who reason]
  by (simp add: admin_request_actions_def)

theorem cfo_actions_unguarded_witness:
  "get_payment_request scenario_db 1 = Some scenario_request \<and>
   snd (approve_cfo scenario_db 200 1 ''CFO'') \<and>
   snd (reject_cfo scenario_db 200 1 ''CFO'' None) \<and>
   get_payment_request scenario_db 2 = None \<and>
   approve_cfo scenario_db 200 2 ''CFO'' = (scenario_db, False) \<and>
   status (scenario_request\<lparr>status := ''rechazado''\<rparr>) \<noteq> ''pendiente'' \<and>
   admin_request_actions scenario_db 200 (scenario_request\<lparr>status := ''rechazado''\<rparr>) Aprobar
     = (scenario_db, False)"
  using cfo_actions_unguarded [of scenario_db 1 scenario_request 200 "''CFO''" None
      "scenario_request\<lparr>status := ''rechazado''\<rparr>" "[]"]
    cfo_actions_unguarded [of scenario_db 2 scenario_request 200 "''CFO''" None
      "scenario_request\<lparr>status := ''rechazado''\<rparr>" "[]"]
  by (simp add: scenario_get get_payment_request_def scenario_db_def scenario_request_def)

text \<open>
  The claim as stated fails: on the scenario's request the approval succeeds, and the
  rejection that follows succeeds too and overwrites the status.
\<close>

theorem approve_reject_both_succeed_counterexample:
  "snd (approve_cfo scenario_db 200 1 ''CFO'') \<and>
   map_option status (get_payment_request (fst (approve_cfo scenario_db 200 1 ''CFO'')) 1)
     = Some ''aprobado_cfo'' \<and>
   snd (reject_cfo (fst (approve_cfo scenario_db 200 1 ''CFO'')) 300 1 ''CFO''
          (Some ''Falta factura'')) \<and>
   map_option status
     (get_payment_request
        (fst (reject_cfo (fst (approve_cfo scenario_db 200 1 ''CFO'')) 300 1 ''CFO''
                (Some ''Falta factura''))) 1)
     = Some ''rechazado''"
  by (simp add: approve_cfo_def reject_cfo_def sql_update_def rowcount_def get_payment_request_def
      scenario_db_def scenario_request_def)

text \<open>
  Claim C3 at the input where it fails. The notes of the scenario's request are saved from
  an empty text area, which stores the empty string; the rejection with reason
  \<open>Falta factura\<close> then leaves notes that start with the separator.
\<close>

theorem reject_after_empty_notes:
  "map_option admin_notes
     (get_payment_request
        (fst (admin_request_actions scenario_db 150 scenario_request (Guardar_Notas []))) 1)
     = Some (Some []) \<and>
   map_option admin_notes
     (get_payment_request
        (fst (reject_cfo
                (fst (admin_request_actions scenario_db 150 scenario_request (Guardar_Notas [])))
                200 1 ''CFO'' (Some ''Falta factura''))) 1)
     = Some (Some '' | Rechazado por CFO: Falta factura'')"
  by (simp add: admin_request_actions_def update_payment_status_def reject_cfo_def
      sql_update_def rowcount_def get_payment_request_def scenario_db_def scenario_request_def
      sql_concat_def coalesce_def rejection_text_def truthy_def)

text \<open>With notes that are NULL the same rejection gives the text alone.\<close>

lemma reject_scenario_3:
  "map_option admin_notes
     (get_payment_request (fst (reject_cfo scenario_db 200 1 ''CFO'' (Some ''Falta factura''))) 1)
     = Some (Some ''Rechazado por CFO: Falta factura'')"
  by (simp add: reject_cfo_def
      sql_update_def rowcount_def get_payment_request_def scenario_db_def scenario_request_def
      sql_concat_def coalesce_def rejection_text_def truthy_def)

subsection \<open>Saving notes\<close>

lemma completed_db_reached:
  "admin_request_actions scenario_db 200 scenario_request Aprobar
     = (\<lparr> payment_requests = [completed_request\<lparr> status := ''aprobado_cfo'',
            updated_at := 200, completed_at := None \<rparr>], sqlite_sequence = 1 \<rparr>, True) \<and>
   admin_request_actions
     \<lparr> payment_requests = [completed_request\<lparr> status := ''aprobado_cfo'',
          updated_at := 200, completed_at := None \<rparr>], sqlite_sequence = 1 \<rparr>
     300 (completed_request\<lparr> status := ''aprobado_cfo'', updated_at := 200,
            completed_at := None \<rparr>) Marcar_En_Proceso
     = (\<lparr> payment_requests = [completed_request\<lparr> status := ''en_proceso'',
            updated_at := 300, completed_at := None \<rparr>], sqlite_sequence = 1 \<rparr>, True) \<and>
   admin_request_actions
     \<lparr> payment_requests = [completed_request\<lparr> status := ''en_proceso'',
          updated_at := 300, completed_at := None \<rparr>], sqlite_sequence = 1 \<rparr>
     400 (completed_request\<lparr> status := ''en_proceso'', updated_at := 300,
            completed_at := None \<rparr>) (Marcar_Completado None)
     = (completed_db, True)"
  by (simp add: admin_request_actions_def approve_cfo_def update_payment_status_def
      sql_update_def rowcount_def scenario_db_def scenario_request_def completed_request_def
      completed_db_def)

text \<open>
  Claim C5 at the input where it fails. Saving notes on the completed request passes its
  status \<open>completado\<close> back to \<open>update_payment_status\<close>, which sets \<open>completed_at\<close>
  to the clock reading: the time of completion 400 is replaced by 500.
\<close>

theorem annotate_completed_resets_completed_at:
  "status completed_request = ''completado'' \<and>
   completed_at completed_request = Some 400 \<and>
   admin_request_actions completed_db 500 completed_request (Guardar_Notas ''pagado'')
     = (\<lparr> payment_requests =
            [completed_request\<lparr> admin_notes := Some ''pagado'', updated_at := 500,
               completed_at := Some 500 \<rparr>],
          sqlite_sequence = 1 \<rparr>, True)"
  by (simp add: admin_request_actions_def update_payment_status_def
      sql_update_def rowcount_def scenario_request_def completed_request_def
      completed_db_def)

text \<open>
  In every other state saving notes changes the notes and \<open>updated_at\<close> and nothing
  else.
\<close>

lemma annotate_other_states:
  assumes "get_payment_request db (req_id req) = Some req" and "status req \<noteq> ''completado''"
  shows "get_payment_request (fst (admin_request_actions db now req (Guardar_Notas notes')))
           (req_id req)
         = Some (req\<lparr> admin_notes := Some notes', updated_at := now \<rparr>)"
  using update_payment_status_row [of db "req_id req" req now "status req" "Some notes'" None]
    assms
  by (simp add: admin_request_actions_def)

section \<open>Properties of the views\<close>

subsection \<open>The requests a view reads\<close>

lemma set_listing: "set (get_payment_requests db None) = set (payment_requests db)"
  by (simp add: get_payment_requests_def truthy_def order_by_created_at_desc_def)


lemma strptime_date_Nil: "strptime_date [] = None"
  by (simp add: strptime_date_def)

lemma parse_agreed_truthy: "parse_agreed p = Some d \<Longrightarrow> truthy (agreed_payment_date p)"
  by (cases "agreed_payment_date p") (auto simp: parse_agreed_def truthy_def strptime_date_Nil)

lemma not_truthy_parse: "\<not> truthy (agreed_payment_date p) \<Longrightarrow> parse_agreed p = None"
  using parse_agreed_truthy [of p] by (cases "parse_agreed p") auto

lemma separate_eq:
  "separate ps =
     (map (\<lambda>p. (p, the (parse_agreed p))) (filter (\<lambda>p. parse_agreed p \<noteq> None) ps),
      filter (\<lambda>p. parse_agreed p = None) ps)"
proof (induction ps)
  case Nil
  then show ?case by simp
next
  case (Cons p ps)
  show ?case
  proof (cases "parse_agreed p")
    case None
    with Cons show ?thesis by simp
  next
    case (Some d)
    with Cons parse_agreed_truthy [OF Some] show ?thesis by simp
  qed
qed

lemma with_date_eq:
  "with_date db = map (\<lambda>p. (p, the (parse_agreed p)))
     (filter (\<lambda>r. active_status (status r) \<and> parse_agreed r \<noteq> None) (get_payment_requests db None))"
  by (simp add: with_date_def separate_eq active_payments_def conj_commute)

lemma without_date_eq:
  "without_date db =
     filter (\<lambda>r. active_status (status r) \<and> parse_agreed r = None) (get_payment_requests db None)"
  by (simp add: without_date_def separate_eq active_payments_def conj_commute)

lemma with_date_parsed: "p \<in> set (with_date db) \<Longrightarrow> parse_agreed (fst p) = Some (snd p)"
  by (auto simp: with_date_eq)


lemma sample_parse_agreed:
  "parse_agreed (sample_request i st None a c) = None"
  "parse_agreed (sample_request i st (Some ''2024-03-18'') a c) = Some 738963"
  "parse_agreed (sample_request i st (Some ''2024-03-10'') a c) = Some 738955"
  "parse_agreed (sample_request i st (Some ''2024-02-30'') a c) = None"
  by (simp_all add: parse_agreed_def sample_fields sample_parse)

lemma sample_scheduled:
  "scheduled_payments (get_payment_requests sample_db None) =
     [sample_request 4 ''pendiente'' (Some ''2024-02-30'') 70 130,
      sample_request 3 ''pendiente'' (Some ''2024-03-10'') 50 120,
      sample_request 2 ''en_proceso'' (Some ''2024-03-18'') 200 110,
      sample_request 1 ''pendiente'' (Some ''2024-03-18'') 100 100]"
  by (simp add: sample_listing scheduled_payments_def sample_fields truthy_def active_status_def)

lemma sample_with_date:
  "with_date sample_db =
     [(sample_request 3 ''pendiente'' (Some ''2024-03-10'') 50 120, 738955),
      (sample_request 2 ''en_proceso'' (Some ''2024-03-18'') 200 110, 738963),
      (sample_request 1 ''pendiente'' (Some ''2024-03-18'') 100 100, 738963)]"
  by (simp add: with_date_eq sample_listing sample_parse_agreed sample_fields active_status_def)

lemma sample_without_date:
  "without_date sample_db =
     [sample_request 6 ''pendiente'' None 30 150,
      sample_request 4 ''pendiente'' (Some ''2024-02-30'') 70 130]"
  by (simp add: without_date_eq sample_listing sample_parse_agreed sample_fields active_status_def)

subsection \<open>The payments of the next 7 days\<close>






subsection \<open>The cumulative cashflow\<close>














subsection \<open>The calendar of a month\<close>

lemma month_payments_eq:
  "month_payments m y ps
     = map (\<lambda>p. (p, the (parse_agreed p)))
         (filter (\<lambda>p. case parse_agreed p of None \<Rightarrow> False
                       | Some d \<Rightarrow> date_month d = m \<and> date_year d = y) ps)"
  by (induction ps) (simp_all split: option.splits)

lemma calendar_month_payments_eq:
  "calendar_month_payments db m y
     = map (\<lambda>p. (p, the (parse_agreed p)))
         (filter (\<lambda>p. active_status (status p) \<and>
                      (case parse_agreed p of None \<Rightarrow> False
                       | Some d \<Rightarrow> date_month d = m \<and> date_year d = y))
            (get_payment_requests db None))"
proof -
  have "\<And>p. (truthy (agreed_payment_date p) \<and> active_status (status p) \<and>
               (case parse_agreed p of None \<Rightarrow> False
                | Some d \<Rightarrow> date_month d = m \<and> date_year d = y))
            = (active_status (status p) \<and>
               (case parse_agreed p of None \<Rightarrow> False
                | Some d \<Rightarrow> date_month d = m \<and> date_year d = y))"
    using parse_agreed_truthy by (auto split: option.splits)
  then show ?thesis
    by (simp add: calendar_month_payments_def month_payments_eq scheduled_payments_def)
qed

lemma group_by_date_lookup:
  "group_by_date ps m d
     = (if filter (\<lambda>p. snd p = d) ps = [] then m d
        else Some ((case m d of None \<Rightarrow> [] | Some l \<Rightarrow> l) @ filter (\<lambda>p. snd p = d) ps))"
proof (induction ps arbitrary: m)
  case Nil
  then show ?case by simp
next
  case (Cons p ps)
  show ?case
    by (cases "m (snd p)"; cases "snd p = d"; cases "filter (\<lambda>p. snd p = d) ps = []")
       (simp_all add: Cons.IH Let_def)
qed

lemma day_cell_grouped:
  "day_cell (payments_by_date mp) d
     = (if filter (\<lambda>p. snd p = d) mp = [] then None
        else Some (length (filter (\<lambda>p. snd p = d) mp),
                   total_amount (filter (\<lambda>p. snd p = d) mp)))"
  by (simp add: day_cell_def payments_by_date_def group_by_date_lookup Let_def)

text \<open>
  Claim C8. The calendar of a month and year holds exactly the requests with status
  \<open>pendiente\<close> or \<open>en_proceso\<close> whose agreed date parses to a date of that month
  and year, each once and in the order read. The cell of a date shows the number and the
  total amount of the payments of exactly that date (nothing when there are none), the
  total of the month is the sum over all of them, and a request whose date does not parse
  is in no cell; the view is a total function, so nothing is raised.
\<close>

theorem calendar_view_month:
  "(((p, d) \<in> set (calendar_month_payments db m y)) =
      (p \<in> set (payment_requests db) \<and> active_status (status p) \<and>
       parse_agreed p = Some d \<and> date_month d = m \<and> date_year d = y)) \<and>
   map fst (calendar_month_payments db m y)
     = filter (\<lambda>p. active_status (status p) \<and>
                  (case parse_agreed p of None \<Rightarrow> False
                   | Some d \<Rightarrow> date_month d = m \<and> date_year d = y))
         (get_payment_requests db None) \<and>
   calendar_day db m y current_date
     = (if filter (\<lambda>e. snd e = current_date) (calendar_month_payments db m y) = [] then None
        else Some (length (filter (\<lambda>e. snd e = current_date) (calendar_month_payments db m y)),
                   sum_list (map (\<lambda>e. amount (fst e))
                     (filter (\<lambda>e. snd e = current_date) (calendar_month_payments db m y))))) \<and>
   total_month db m y
     = sum_list (map amount
         (filter (\<lambda>p. active_status (status p) \<and>
                    (case parse_agreed p of None \<Rightarrow> False
                     | Some d \<Rightarrow> date_month d = m \<and> date_year d = y))
            (get_payment_requests db None))) \<and>
   (parse_agreed r = None \<longrightarrow> r \<notin> fst ` set (calendar_month_payments db m y))"
proof (intro conjI)
  show "((p, d) \<in> set (calendar_month_payments db m y)) =
      (p \<in> set (payment_requests db) \<and> active_status (status p) \<and>
       parse_agreed p = Some d \<and> date_month d = m \<and> date_year d = y)"
    by (auto simp: calendar_month_payments_eq set_listing split: option.splits)
  show fsts: "map fst (calendar_month_payments db m y)
     = filter (\<lambda>p. active_status (status p) \<and>
                  (case parse_agreed p of None \<Rightarrow> False
                   | Some d \<Rightarrow> date_month d = m \<and> date_year d = y))
         (get_payment_requests db None)"
    by (simp add: calendar_month_payments_eq comp_def)
  show "calendar_day db m y current_date
     = (if filter (\<lambda>e. snd e = current_date) (calendar_month_payments db m y) = [] then None
        else Some (length (filter (\<lambda>e. snd e = current_date) (calendar_month_payments db m y)),
                   sum_list (map (\<lambda>e. amount (fst e))
                     (filter (\<lambda>e. snd e = current_date) (calendar_month_payments db m y)))))"
    by (simp add: calendar_day_def day_cell_grouped total_amount_def)
  have "total_month db m y = sum_list (map amount (map fst (calendar_month_payments db m y)))"
    by (simp add: total_month_def total_amount_def comp_def)
  then show "total_month db m y
     = sum_list (map amount
         (filter (\<lambda>p. active_status (status p) \<and>
                    (case parse_agreed p of None \<Rightarrow> False
                     | Some d \<Rightarrow> date_month d = m \<and> date_year d = y))
            (get_payment_requests db None)))"
    by (simp only: fsts)
  show "parse_agreed r = None \<longrightarrow> r \<notin> fst ` set (calendar_month_payments db m y)"
    by (auto simp: calendar_month_payments_eq)
qed

lemma sample_months:
  "date_month 738963 = 3" "date_year 738963 = 2024"
  "date_month 738955 = 3" "date_year 738955 = 2024"
  by (simp_all add: date_month_def date_year_def sample_ymd)

lemma sample_calendar:
  "calendar_month_payments sample_db 3 2024 =
     [(sample_request 3 ''pendiente'' (Some ''2024-03-10'') 50 120, 738955),
      (sample_request 2 ''en_proceso'' (Some ''2024-03-18'') 200 110, 738963),
      (sample_request 1 ''pendiente'' (Some ''2024-03-18'') 100 100, 738963)]"
  by (simp add: calendar_month_payments_def sample_scheduled sample_parse_agreed sample_months)

theorem calendar_view_month_witness:
  "parse_agreed (sample_request 4 ''pendiente'' (Some ''2024-02-30'') 70 130) = None \<and>
   sample_request 4 ''pendiente'' (Some ''2024-02-30'') 70 130
     \<notin> fst ` set (calendar_month_payments sample_db 3 2024) \<and>
   calendar_day sample_db 3 2024 (ymd2ord 2024 3 18) = Some (2, 300) \<and>
   calendar_day sample_db 3 2024 (ymd2ord 2024 3 10) = Some (1, 50) \<and>
   calendar_day sample_db 3 2024 (ymd2ord 2024 3 11) = None \<and>
   total_month sample_db 3 2024 = 350"
  using calendar_view_month [of _ _ sample_db 3 2024 "ymd2ord 2024 3 18"
      "sample_request 4 ''pendiente'' (Some ''2024-02-30'') 70 130"]
    calendar_view_month [of _ _ sample_db 3 2024 "ymd2ord 2024 3 10"
      "sample_request 4 ''pendiente'' (Some ''2024-02-30'') 70 130"]
    calendar_view_month [of _ _ sample_db 3 2024 "ymd2ord 2024 3 11"
      "sample_request 4 ''pendiente'' (Some ''2024-02-30'') 70 130"]
  by (simp add: sample_calendar sample_parse_agreed sample_fields sample_listing sample_months
      active_status_def ymd2ord_def days_before_year_def days_before_month_def
      days_before_month_table_def is_leap_def)

subsection \<open>The projection by weeks and months\<close>

lemma week_of_day:
  "((today::int) + 7 * int i \<le> d \<and> d \<le> today + 7 * int i + 6)
     = (today \<le> d \<and> (d - today) div 7 = int i)"
proof -
  define x where "x = d - today"
  define k where "k = int i"
  have "0 \<le> k" by (simp add: k_def)
  then have "(7 * k \<le> x \<and> x \<le> 7 * k + 6) = (0 \<le> x \<and> x div 7 = k)"
    by presburger
  then show ?thesis
    unfolding x_def k_def by (simp add: algebra_simps)
qed

lemma week_payments_eq:
  "payments_between wd (today + 7 * int i) (today + 7 * int i + 6)
     = filter (\<lambda>p. today \<le> snd p \<and> (snd p - today) div 7 = int i) wd"
  by (simp only: payments_between_def week_of_day)

lemma weeks_data_nth:
  "i < 8 \<Longrightarrow> weeks_data db today ! i = week_bucket (with_date db) today i"
  using nth_map [of i "[0..<8]" "week_bucket (with_date db) today"] nth_upt [of 0 i 8]
  by (simp add: weeks_data_def)

lemma months_data_nth:
  "i < 6 \<Longrightarrow> months_data db today ! i = month_bucket (with_date db) today i"
  using nth_map [of i "[0..<6]" "month_bucket (with_date db) today"] nth_upt [of 0 i 6]
  by (simp add: months_data_def)

lemma sum_list_filter_split:
  "sum_list (map f xs)
     = sum_list (map f (filter P xs)) + sum_list (map (f :: 'a \<Rightarrow> real) (filter (\<lambda>x. \<not> P x) xs))"
  by (induction xs) simp_all

lemma total_pending_split: "total_pending db = total_scheduled db + total_unscheduled db"
proof -
  let ?aps = "active_payments (get_payment_requests db None)"
  have s: "total_scheduled db
           = sum_list (map amount (filter (\<lambda>p. parse_agreed p \<noteq> None) ?aps))"
    by (simp add: total_scheduled_def total_amount_def with_date_def separate_eq comp_def)
  have u: "total_unscheduled db
           = sum_list (map amount (filter (\<lambda>p. \<not> parse_agreed p \<noteq> None) ?aps))"
    by (simp add: total_unscheduled_def without_date_def separate_eq)
  show ?thesis
    unfolding s u total_pending_def
    by (rule sum_list_filter_split)
qed

text \<open>
  Claim C9, as the code has it. The weekly projection has 8 buckets of 7 days, one after
  the other from today on: bucket \<open>i\<close> runs from \<open>today + 7 i\<close> to \<open>today + 7 i + 6\<close>
  and holds exactly the dated payments of week \<open>i\<close> counted from today. The monthly
  projection has 6 buckets; bucket \<open>k\<close> runs from the first day of the month of today
  plus \<open>k\<close> months to the day before the first day of the month after it, so the first
  one starts on the 1st of the current month and not at today. The total of a bucket is
  the sum of the amounts of the \<open>pendiente\<close> and \<open>en_proceso\<close> requests whose agreed
  date parses and lies in the bucket. The active requests whose date is missing, empty or
  does not parse make up the unscheduled total and are in no bucket; scheduled and
  unscheduled total add up to the total pending.
\<close>

theorem cashflow_projection_buckets:
  "length (weeks_data db today) = 8 \<and>
   (i < 8 \<longrightarrow>
      bucket_start (weeks_data db today ! i) = today + 7 * int i \<and>
      bucket_end (weeks_data db today ! i) = today + 7 * int i + 6 \<and>
      monto (weeks_data db today ! i)
        = sum_list (map (\<lambda>p. amount (fst p))
            (filter (\<lambda>p. today \<le> snd p \<and> (snd p - today) div 7 = int i) (with_date db))) \<and>
      pagos (weeks_data db today ! i)
        = length (filter (\<lambda>p. today \<le> snd p \<and> (snd p - today) div 7 = int i) (with_date db))) \<and>
   length (months_data db today) = 6 \<and>
   (k < 6 \<longrightarrow>
      bucket_start (months_data db today ! k) = replace_day_1 (add_months today (int k)) \<and>
      bucket_end (months_data db today ! k)
        = add_months (replace_day_1 (add_months today (int k))) 1 - 1 \<and>
      monto (months_data db today ! k)
        = sum_list (map (\<lambda>p. amount (fst p))
            (filter (\<lambda>p. bucket_start (months_data db today ! k) \<le> snd p \<and>
                         snd p \<le> bucket_end (months_data db today ! k)) (with_date db))) \<and>
      pagos (months_data db today ! k)
        = length (filter (\<lambda>p. bucket_start (months_data db today ! k) \<le> snd p \<and>
                              snd p \<le> bucket_end (months_data db today ! k)) (with_date db))) \<and>
   map fst (with_date db)
     = filter (\<lambda>r. active_status (status r) \<and> parse_agreed r \<noteq> None)
         (get_payment_requests db None) \<and>
   (e \<in> set (with_date db) \<longrightarrow> parse_agreed (fst e) = Some (snd e)) \<and>
   without_date db
     = filter (\<lambda>r. active_status (status r) \<and> parse_agreed r = None)
         (get_payment_requests db None) \<and>
   total_unscheduled db
     = sum_list (map amount
         (filter (\<lambda>r. active_status (status r) \<and> parse_agreed r = None)
            (get_payment_requests db None))) \<and>
   total_pending db = total_scheduled db + total_unscheduled db \<and>
   (parse_agreed r = None \<longrightarrow> r \<notin> fst ` set (payments_between (with_date db) first_day last_day))"
proof (intro conjI impI)
  show "length (weeks_data db today) = 8" by (simp add: weeks_data_def)
  show "length (months_data db today) = 6" by (simp add: months_data_def)
  show "map fst (with_date db)
     = filter (\<lambda>r. active_status (status r) \<and> parse_agreed r \<noteq> None)
         (get_payment_requests db None)"
    by (simp add: with_date_eq comp_def)
  show "without_date db
     = filter (\<lambda>r. active_status (status r) \<and> parse_agreed r = None)
         (get_payment_requests db None)"
    by (rule without_date_eq)
  show "total_unscheduled db
     = sum_list (map amount
         (filter (\<lambda>r. active_status (status r) \<and> parse_agreed r = None)
            (get_payment_requests db None)))"
    by (simp only: total_unscheduled_def without_date_eq)
  show "total_pending db = total_scheduled db + total_unscheduled db"
    by (rule total_pending_split)
next
  assume "e \<in> set (with_date db)"
  then show "parse_agreed (fst e) = Some (snd e)" by (rule with_date_parsed)
next
  assume "parse_agreed r = None"
  then show "r \<notin> fst ` set (payments_between (with_date db) first_day last_day)"
    by (auto simp: payments_between_def with_date_eq)
next
  assume i: "i < 8"
  show "bucket_start (weeks_data db today ! i) = today + 7 * int i"
    by (simp add: weeks_data_nth [OF i] week_bucket_def Let_def)
  show "bucket_end (weeks_data db today ! i) = today + 7 * int i + 6"
    by (simp add: weeks_data_nth [OF i] week_bucket_def Let_def)
  show "monto (weeks_data db today ! i)
        = sum_list (map (\<lambda>p. amount (fst p))
            (filter (\<lambda>p. today \<le> snd p \<and> (snd p - today) div 7 = int i) (with_date db)))"
    by (simp add: weeks_data_nth [OF i] week_bucket_def Let_def week_payments_eq total_amount_def)
  show "pagos (weeks_data db today ! i)
        = length (filter (\<lambda>p. today \<le> snd p \<and> (snd p - today) div 7 = int i) (with_date db))"
    by (simp add: weeks_data_nth [OF i] week_bucket_def Let_def week_payments_eq)
next
  assume k: "k < 6"
  show "bucket_start (months_data db today ! k) = replace_day_1 (add_months today (int k))"
    by (simp add: months_data_nth [OF k] month_bucket_def Let_def)
  show "bucket_end (months_data db today ! k)
        = add_months (replace_day_1 (add_months today (int k))) 1 - 1"
    by (simp add: months_data_nth [OF k] month_bucket_def Let_def)
  show "monto (months_data db today ! k)
        = sum_list (map (\<lambda>p. amount (fst p))
            (filter (\<lambda>p. bucket_start (months_data db today ! k) \<le> snd p \<and>
                         snd p \<le> bucket_end (months_data db today ! k)) (with_date db)))"
    by (simp add: months_data_nth [OF k] month_bucket_def Let_def payments_between_def
        total_amount_def)
  show "pagos (months_data db today ! k)
        = length (filter (\<lambda>p. bucket_start (months_data db today ! k) \<le> snd p \<and>
                              snd p \<le> bucket_end (months_data db today ! k)) (with_date db))"
    by (simp add: months_data_nth [OF k] month_bucket_def Let_def payments_between_def)
qed

lemma sample_month_0:
  "replace_day_1 (add_months sample_today 0) = 738946"
  "add_months 738946 1 = 738977"
  "ord2ymd 738946 = (2024, 3, 1)"
  "ord2ymd 738976 = (2024, 3, 31)"
  by (simp_all add: sample_today_eq replace_day_1_def add_months_def date_year_def date_month_def
      date_day_def ord2ymd_def Let_def ymd2ord_def days_before_year_def days_before_month_def
      days_before_month_table_def days_in_month_def days_in_month_table_def is_leap_def)

lemma sample_between:
  "payments_between (with_date sample_db) 738946 738976 =
     [(sample_request 3 ''pendiente'' (Some ''2024-03-10'') 50 120, 738955),
      (sample_request 2 ''en_proceso'' (Some ''2024-03-18'') 200 110, 738963),
      (sample_request 1 ''pendiente'' (Some ''2024-03-18'') 100 100, 738963)]"
  "payments_between (with_date sample_db) 738960 738966 =
     [(sample_request 2 ''en_proceso'' (Some ''2024-03-18'') 200 110, 738963),
      (sample_request 1 ''pendiente'' (Some ''2024-03-18'') 100 100, 738963)]"
  by (simp_all add: payments_between_def sample_with_date)

lemma sample_month_bucket:
  "months_data sample_db sample_today ! 0
     = \<lparr> bucket_start = 738946, bucket_end = 738976, monto = 350, pagos = 3 \<rparr>"
proof -
  have "month_bucket (with_date sample_db) sample_today 0
     = \<lparr> bucket_start = 738946, bucket_end = 738976,
         monto = total_amount (payments_between (with_date sample_db) 738946 738976),
         pagos = length (payments_between (with_date sample_db) 738946 738976) \<rparr>"
    by (simp add: month_bucket_def Let_def sample_month_0)
  then show ?thesis
    by (simp add: months_data_nth sample_between total_amount_def sample_fields)
qed

lemma sample_week_bucket:
  "weeks_data sample_db sample_today ! 0
     = \<lparr> bucket_start = sample_today, bucket_end = sample_today + 6, monto = 300, pagos = 2 \<rparr>"
proof -
  have "week_bucket (with_date sample_db) sample_today 0
     = \<lparr> bucket_start = sample_today, bucket_end = sample_today + 6,
         monto = total_amount (payments_between (with_date sample_db) 738960 738966),
         pagos = length (payments_between (with_date sample_db) 738960 738966) \<rparr>"
    by (simp add: week_bucket_def Let_def sample_today_eq)
  then show ?thesis
    by (simp add: weeks_data_nth sample_between total_amount_def sample_fields)
qed

lemma sample_totals:
  "total_unscheduled sample_db = 100" "total_scheduled sample_db = 350"
  by (simp_all add: total_unscheduled_def total_scheduled_def total_amount_def
      sample_with_date sample_without_date sample_fields)

theorem cashflow_projection_buckets_witness:
  "parse_agreed (sample_request 4 ''pendiente'' (Some ''2024-02-30'') 70 130) = None \<and>
   sample_request 4 ''pendiente'' (Some ''2024-02-30'') 70 130
     \<notin> fst ` set (payments_between (with_date sample_db) 738946 738976) \<and>
   (sample_request 1 ''pendiente'' (Some ''2024-03-18'') 100 100, 738963)
     \<in> set (with_date sample_db) \<and>
   parse_agreed (sample_request 1 ''pendiente'' (Some ''2024-03-18'') 100 100) = Some 738963 \<and>
   weeks_data sample_db sample_today ! 0
     = \<lparr> bucket_start = sample_today, bucket_end = sample_today + 6, monto = 300, pagos = 2 \<rparr> \<and>
   months_data sample_db sample_today ! 0
     = \<lparr> bucket_start = 738946, bucket_end = 738976, monto = 350, pagos = 3 \<rparr> \<and>
   total_unscheduled sample_db = 100 \<and>
   total_pending sample_db = 450"
proof -
  note t = cashflow_projection_buckets [of sample_db sample_today 0 0
      "(sample_request 1 ''pendiente'' (Some ''2024-03-18'') 100 100, 738963)"
      "sample_request 4 ''pendiente'' (Some ''2024-02-30'') 70 130" 738946 738976]
  have h1: "parse_agreed (sample_request 4 ''pendiente'' (Some ''2024-02-30'') 70 130) = None"
    by (simp add: sample_parse_agreed)
  have h2: "(sample_request 1 ''pendiente'' (Some ''2024-03-18'') 100 100, 738963)
     \<in> set (with_date sample_db)"
    by (simp add: sample_with_date)
  from t h1 have c1: "sample_request 4 ''pendiente'' (Some ''2024-02-30'') 70 130
     \<notin> fst ` set (payments_between (with_date sample_db) 738946 738976)"
    by blast
  from t h2 have c2:
    "parse_agreed (sample_request 1 ''pendiente'' (Some ''2024-03-18'') 100 100) = Some 738963"
    by simp
  from t have c3: "total_pending sample_db = total_scheduled sample_db + total_unscheduled sample_db"
    by blast
  from h1 h2 c1 c2 c3 show ?thesis
    by (simp add: sample_week_bucket sample_month_bucket sample_totals)
qed

text \<open>
  The claim as stated fails for the months: seen on 2024-03-15, the first monthly bucket
  starts on 2024-03-01 and counts the request of 2024-03-10, a date before today.
\<close>

theorem monthly_bucket_before_today_counterexample:
  "months_data sample_db sample_today ! 0
     = \<lparr> bucket_start = 738946, bucket_end = 738976, monto = 350, pagos = 3 \<rparr> \<and>
   ord2ymd 738946 = (2024, 3, 1) \<and> ord2ymd sample_today = (2024, 3, 15) \<and>
   738946 < sample_today \<and>
   parse_agreed (sample_request 3 ''pendiente'' (Some ''2024-03-10'') 50 120) = Some 738955 \<and>
   738955 < sample_today \<and>
   payments_between (with_date sample_db) 738946 738976 =
     [(sample_request 3 ''pendiente'' (Some ''2024-03-10'') 50 120, 738955),
      (sample_request 2 ''en_proceso'' (Some ''2024-03-18'') 200 110, 738963),
      (sample_request 1 ''pendiente'' (Some ''2024-03-18'') 100 100, 738963)]"
proof -
  have "ord2ymd sample_today = (2024, 3, 15)" "738946 < sample_today" "738955 < sample_today"
    by (simp_all add: sample_today_eq sample_ymd)
  then show ?thesis
    by (simp add: sample_month_bucket sample_month_0 sample_parse_agreed sample_between)
qed

end
